theory Spec2Isabelle
  imports Main
begin

section \<open>Values exchanged with the platform\<close>

text \<open>
  The downloader (\<^verbatim>\<open>src/mulesoft_downloader.py\<close>) handles values parsed from JSON
  response bodies. A Python float is kept as mantissa and exponent, or as one of the three
  non-finite values that the parser accepts; only its being zero matters below.
\<close>

datatype pyfloat = Finite int int | PosInf | NegInf | NaN

datatype json =
    JNull
  | JBool bool
  | JInt int
  | JFloat pyfloat
  | JStr string
  | JArr "json list"
  | JObj "(string \<times> json) list"

text \<open>The places where the source wraps a request error into a plain \<^verbatim>\<open>Exception\<close>.\<close>

datatype site = Authentication | Retrieving_applications | Retrieving_information

datatype exn =
    KeyError
  | ValueError
  | TypeError
  | AttributeError
  | WrappedException site

text \<open>Python truthiness, as tested by \<^verbatim>\<open>if not app_name\<close> and \<^verbatim>\<open>if not filename\<close>.\<close>

fun truthy :: "json \<Rightarrow> bool" where
  "truthy JNull = False"
| "truthy (JBool b) = b"
| "truthy (JInt n) = (n \<noteq> 0)"
| "truthy (JFloat f) = (case f of Finite m e \<Rightarrow> m \<noteq> 0 | _ \<Rightarrow> True)"
| "truthy (JStr s) = (s \<noteq> [])"
| "truthy (JArr xs) = (xs \<noteq> [])"
| "truthy (JObj kvs) = (kvs \<noteq> [])"

text \<open>
  \<^verbatim>\<open>x.get(key)\<close>: a dictionary answers with the value or \<^verbatim>\<open>None\<close>; every other
  parsed value has no attribute \<^verbatim>\<open>get\<close>.
\<close>

fun dict_get :: "json \<Rightarrow> string \<Rightarrow> exn + json" where
  "dict_get (JObj kvs) k = Inr (case map_of kvs k of None \<Rightarrow> JNull | Some v \<Rightarrow> v)"
| "dict_get _ k = Inl AttributeError"

text \<open>\<^verbatim>\<open>x[key]\<close> with a string key, as in \<^verbatim>\<open>response.json()["access_token"]\<close>.\<close>

fun subscript :: "json \<Rightarrow> string \<Rightarrow> exn + json" where
  "subscript (JObj kvs) k = (case map_of kvs k of None \<Rightarrow> Inl KeyError | Some v \<Rightarrow> Inr v)"
| "subscript _ k = Inl TypeError"

text \<open>
  \<^verbatim>\<open>len(x)\<close> followed by iteration over \<^verbatim>\<open>x\<close>: lists, dictionaries (their keys) and
  strings (their characters) have a length and can be iterated; for the other parsed
  values \<^verbatim>\<open>len\<close> raises.
\<close>

fun py_iter :: "json \<Rightarrow> exn + json list" where
  "py_iter (JArr xs) = Inr xs"
| "py_iter (JObj kvs) = Inr (map (\<lambda>kv. JStr (fst kv)) kvs)"
| "py_iter (JStr s) = Inr (map (\<lambda>c. JStr [c]) s)"
| "py_iter _ = Inl TypeError"

fun is_record :: "json \<Rightarrow> bool" where
  "is_record (JObj kvs) = True"
| "is_record _ = False"

subsection \<open>Strings, paths and timestamps\<close>

text \<open>\<^verbatim>\<open>str.lower\<close> on the ASCII letters; no other code point folds to an ASCII letter
  of the three selector names.\<close>

definition lower_char :: "char \<Rightarrow> char" where
  "lower_char c =
     (let n = (of_char c :: nat) in if 65 \<le> n \<and> n \<le> 90 then char_of (n + 32) else c)"

definition lower :: "string \<Rightarrow> string" where
  "lower s = map lower_char s"

text \<open>\<^verbatim>\<open>os.path.join\<close> on two components (POSIX).\<close>

definition os_path_join :: "string \<Rightarrow> string \<Rightarrow> string" where
  "os_path_join a b =
     (if b \<noteq> [] \<and> hd b = CHR ''/'' then b
      else if a = [] \<or> last a = CHR ''/'' then a @ b
      else a @ ''/'' @ b)"

text \<open>The second component comes from a response; a value that is not a string makes
  \<^verbatim>\<open>os.path.join\<close> raise.\<close>

fun path_join :: "string \<Rightarrow> json \<Rightarrow> exn + string" where
  "path_join a (JStr b) = Inr (os_path_join a b)"
| "path_join a _ = Inl TypeError"

record datetime =
  dt_year :: nat
  dt_month :: nat
  dt_day :: nat
  dt_hour :: nat
  dt_minute :: nat
  dt_second :: nat
  dt_microsecond :: nat

definition digit :: "nat \<Rightarrow> char" where
  "digit n = char_of (48 + n mod 10)"

definition pad2 :: "nat \<Rightarrow> string" where
  "pad2 n = [digit (n div 10), digit n]"

definition pad4 :: "nat \<Rightarrow> string" where
  "pad4 n = [digit (n div 1000), digit (n div 100), digit (n div 10), digit n]"

text \<open>\<^verbatim>\<open>strftime("%Y%m%d_%H%M%S")\<close>: the microsecond is not printed.\<close>

definition strftime :: "datetime \<Rightarrow> string" where
  "strftime t =
     pad4 (dt_year t) @ pad2 (dt_month t) @ pad2 (dt_day t) @ ''_'' @
     pad2 (dt_hour t) @ pad2 (dt_minute t) @ pad2 (dt_second t)"



section \<open>Effects\<close>

text \<open>
  Every effect of the program is an event, appended to a trace in program order. The tag
  of a GET names the method that issued it. \<open>RemovePath\<close> stands for any call that deletes
  a file or a directory.
\<close>

datatype endpoint = AuthEP | ListEP | InfoEP | DownloadEP

datatype log_msg =
    Using_control_plane string
  | Base_url string
  | Calling_endpoint endpoint string
  | Headers_used
  | Header_line string string
  | Starting
  | Found nat
  | Saved_json string
  | Processing nat nat json
  | Filename_not_found json
  | Received_json json
  | Downloading_file json
  | Download_completed string
  | Download_failed json
  | Error_downloading json
  | Error_processing json exn
  | Error_during_process exn
  | Completed
  | Fatal_error exn

datatype event =
    HttpPost string "(string \<times> string) list"
  | HttpGet endpoint string "(string \<times> string) list" bool
  | MakeDirs string
  | OpenWrite string
  | WriteData string string
  | CloseFile string
  | RemovePath string
  | Print log_msg

text \<open>
  What the network answers to the request that ends the trace: whether the transfer worked
  at all, the status code, the body as \<^verbatim>\<open>response.json()\<close> reads it (\<open>None\<close>: not JSON),
  the chunks \<^verbatim>\<open>iter_content\<close> yields, and whether the stream ends normally after them
  (otherwise it raises a request error after the last listed chunk).
\<close>

record reply =
  transport_ok :: bool
  status_code :: nat
  json_body :: "json option"
  chunks :: "string list"
  stream_ok :: bool

text \<open>
  The surroundings of a run: the process environment after \<^verbatim>\<open>load_dotenv\<close>, the network,
  the wall clock, and the library functions \<^verbatim>\<open>str\<close>, \<^verbatim>\<open>json.dumps\<close> (with
  \<^verbatim>\<open>indent=2\<close>), \<^verbatim>\<open>json.loads\<close> and the default headers of a new session. Network and
  clock may depend on everything that happened before. Calls on the local file system
  are taken to succeed.
\<close>

record world =
  environ :: "string \<Rightarrow> string option"
  http :: "event list \<Rightarrow> reply"
  clock :: "event list \<Rightarrow> datetime"
  py_str :: "json \<Rightarrow> string"
  json_dumps :: "json \<Rightarrow> string"
  json_loads :: "string \<Rightarrow> json option"
  default_headers :: "(string \<times> string) list"

text \<open>Formatting a value inside an f-string.\<close>

definition fmt :: "world \<Rightarrow> json \<Rightarrow> string" where
  "fmt w v = (case v of JStr s \<Rightarrow> s | _ \<Rightarrow> py_str w v)"

text \<open>\<^verbatim>\<open>response.raise_for_status()\<close> raises on 4xx and 5xx.\<close>

definition raises_for_status :: "reply \<Rightarrow> bool" where
  "raises_for_status r \<longleftrightarrow> 400 \<le> status_code r \<and> status_code r < 600"

section \<open>The downloader object\<close>

record config =
  client_id :: string
  client_secret :: string
  organization_id :: string
  environment_id :: string

record downloader =
  enable_endpoint_logging :: bool
  control_plane :: string
  config :: config
  auth_url :: string
  base_url :: string
  session_headers :: "(string \<times> string) list"
  download_dir :: string

text \<open>The object before \<^verbatim>\<open>__init__\<close> has assigned any attribute.\<close>

definition blank :: downloader where
  "blank = \<lparr>enable_endpoint_logging = False, control_plane = [],
            config = \<lparr>client_id = [], client_secret = [], organization_id = [],
                      environment_id = []\<rparr>,
            auth_url = [], base_url = [], session_headers = [], download_dir = []\<rparr>"

definition os_getenv :: "world \<Rightarrow> string \<Rightarrow> string \<Rightarrow> string" where
  "os_getenv w var dflt = (case environ w var of None \<Rightarrow> dflt | Some s \<Rightarrow> s)"

definition required_vars :: "string list" where
  "required_vars = [''ANYPOINT_CLIENT_ID'', ''ANYPOINT_CLIENT_SECRET'',
                    ''ANYPOINT_ORG_ID'', ''ANYPOINT_ENV_ID'']"

text \<open>\<^verbatim>\<open>not os.getenv(var)\<close>: unset or empty.\<close>

definition missing :: "world \<Rightarrow> string \<Rightarrow> bool" where
  "missing w var = (case environ w var of None \<Rightarrow> True | Some s \<Rightarrow> s = [])"

definition valid_control_planes :: "string list" where
  "valid_control_planes = [''us'', ''eu1'', ''gov'']"

definition load_config :: "world \<Rightarrow> downloader \<Rightarrow> exn + downloader" where
  "load_config w self =
     (let missing_vars = filter (missing w) required_vars in
      if missing_vars \<noteq> [] then Inl KeyError
      else
        let logging = (lower (os_getenv w ''ENABLE_ENDPOINT_LOGGING'' ''True'') = ''true'');
            cp = lower (os_getenv w ''ANYPOINT_CONTROL_PLANE'' ''us'')
        in if cp \<notin> set valid_control_planes then Inl ValueError
           else Inr (self\<lparr>enable_endpoint_logging := logging, control_plane := cp,
                   config := \<lparr>client_id = os_getenv w ''ANYPOINT_CLIENT_ID'' [],
                              client_secret = os_getenv w ''ANYPOINT_CLIENT_SECRET'' [],
                              organization_id = os_getenv w ''ANYPOINT_ORG_ID'' [],
                              environment_id = os_getenv w ''ANYPOINT_ENV_ID'' []\<rparr>\<rparr>))"

definition control_plane_domains :: "(string \<times> string) list" where
  "control_plane_domains = [(''us'', ''anypoint.mulesoft.com''),
                            (''eu1'', ''eu1.anypoint.mulesoft.com''),
                            (''gov'', ''gov.anypoint.mulesoft.com'')]"

definition setup_base_urls :: "downloader \<Rightarrow> event list \<Rightarrow> (exn + downloader) \<times> event list" where
  "setup_base_urls self tr =
     (case map_of control_plane_domains (control_plane self) of
        None \<Rightarrow> (Inl KeyError, tr)
      | Some base_domain \<Rightarrow>
          let self' = self\<lparr>auth_url := ''https://'' @ base_domain @ ''/accounts/api/v2/oauth2/token'',
                           base_url := ''https://'' @ base_domain @ ''/cloudhub/api''\<rparr>
          in (Inr self',
              tr @ (if enable_endpoint_logging self'
                    then [Print (Using_control_plane (control_plane self')),
                          Print (Base_url (base_url self'))]
                    else [])))"

definition log_endpoint :: "downloader \<Rightarrow> log_msg \<Rightarrow> event list" where
  "log_endpoint self message = (if enable_endpoint_logging self then [Print message] else [])"

text \<open>
  \<^verbatim>\<open>_setup_session\<close>. The POST goes through the module-level \<^verbatim>\<open>requests.post\<close>, not
  through the session. A request error (transport, status, or a body that is not JSON) is
  wrapped; a body without the token field raises past the handler unwrapped.
\<close>

definition setup_session :: "world \<Rightarrow> downloader \<Rightarrow> event list \<Rightarrow> (exn + downloader) \<times> event list" where
  "setup_session w self tr =
     (let tr1 = tr @ log_endpoint self (Calling_endpoint AuthEP (auth_url self));
          auth_data = [(''grant_type'', ''client_credentials''),
                       (''client_id'', client_id (config self)),
                       (''client_secret'', client_secret (config self))];
          tr2 = tr1 @ [HttpPost (auth_url self) auth_data];
          response = http w tr2
      in if \<not> transport_ok response \<or> raises_for_status response
         then (Inl (WrappedException Authentication), tr2)
         else (case json_body response of
                 None \<Rightarrow> (Inl (WrappedException Authentication), tr2)
               | Some body \<Rightarrow>
                   (case subscript body ''access_token'' of
                      Inl e \<Rightarrow> (Inl e, tr2)
                    | Inr access_token \<Rightarrow>
                        (Inr (self\<lparr>session_headers :=
                                [(''Authorization'', ''Bearer '' @ fmt w access_token),
                                 (''Content-Type'', ''application/json''),
                                 (''x-anypnt-env-id'', environment_id (config self)),
                                 (''x-anypnt-org-id'', organization_id (config self))]
                                @ session_headers self\<rparr>), tr2))))"

text \<open>The header dictionary is read with \<open>map_of\<close>: the first binding of a name is the
  current one, so prepending is \<^verbatim>\<open>headers.update\<close>.\<close>

definition setup_download_dir :: "world \<Rightarrow> downloader \<Rightarrow> event list \<Rightarrow> downloader \<times> event list" where
  "setup_download_dir w self tr =
     (let timestamp = strftime (clock w tr);
          self' = self\<lparr>download_dir := ''downloads_'' @ timestamp\<rparr>
      in (self', tr @ [MakeDirs (download_dir self')]))"

text \<open>\<^verbatim>\<open>__init__\<close>: the five steps in the order of the source.\<close>

definition init :: "world \<Rightarrow> (exn + downloader) \<times> event list" where
  "init w =
     (case load_config w blank of
        Inl e \<Rightarrow> (Inl e, [])
      | Inr s1 \<Rightarrow>
          (case setup_base_urls s1 [] of
             (Inl e, tr1) \<Rightarrow> (Inl e, tr1)
           | (Inr s2, tr1) \<Rightarrow>
               (let s3 = s2\<lparr>session_headers := default_headers w, download_dir := ''downloads''\<rparr>
                in case setup_session w s3 tr1 of
                     (Inl e, tr2) \<Rightarrow> (Inl e, tr2)
                   | (Inr s4, tr2) \<Rightarrow>
                       (case setup_download_dir w s4 tr2 of (s5, tr3) \<Rightarrow> (Inr s5, tr3)))))"

section \<open>Requests through the session\<close>

text \<open>\<^verbatim>\<open>self.session.get(url, stream=...)\<close>: the request carries the session's headers.\<close>

definition session_get ::
  "world \<Rightarrow> downloader \<Rightarrow> endpoint \<Rightarrow> string \<Rightarrow> bool \<Rightarrow> event list \<Rightarrow> reply \<times> event list" where
  "session_get w self ep url stream tr =
     (let tr' = tr @ [HttpGet ep url (session_headers self) stream] in (http w tr', tr'))"

definition get_applications :: "world \<Rightarrow> downloader \<Rightarrow> event list \<Rightarrow> (exn + json) \<times> event list" where
  "get_applications w self tr =
     (let url = base_url self @ ''/applications'';
          tr1 = tr @ log_endpoint self (Calling_endpoint ListEP url)
                   @ (if enable_endpoint_logging self
                      then [Print Headers_used,
                            Print (Header_line ''x-anypnt-env-id'' (environment_id (config self))),
                            Print (Header_line ''x-anypnt-org-id'' (organization_id (config self)))]
                      else [])
      in case session_get w self ListEP url False tr1 of
           (response, tr2) \<Rightarrow>
             if \<not> transport_ok response \<or> raises_for_status response
             then (Inl (WrappedException Retrieving_applications), tr2)
             else (case json_body response of
                     None \<Rightarrow> (Inl (WrappedException Retrieving_applications), tr2)
                   | Some v \<Rightarrow> (Inr v, tr2)))"

definition info_url :: "world \<Rightarrow> downloader \<Rightarrow> json \<Rightarrow> string" where
  "info_url w self app_name =
     base_url self @ ''/organizations/'' @ organization_id (config self) @
     ''/environments/'' @ environment_id (config self) @ ''/applications/'' @ fmt w app_name"

definition get_application_info ::
  "world \<Rightarrow> downloader \<Rightarrow> json \<Rightarrow> event list \<Rightarrow> (exn + json) \<times> event list" where
  "get_application_info w self app_name tr =
     (let url = info_url w self app_name;
          tr1 = tr @ log_endpoint self (Calling_endpoint InfoEP url)
      in case session_get w self InfoEP url False tr1 of
           (response, tr2) \<Rightarrow>
             if \<not> transport_ok response \<or> raises_for_status response
             then (Inl (WrappedException Retrieving_information), tr2)
             else (case json_body response of
                     None \<Rightarrow> (Inl (WrappedException Retrieving_information), tr2)
                   | Some v \<Rightarrow> (Inr v, tr2)))"

text \<open>
  \<^verbatim>\<open>download_application\<close>. The directory of the application is made before the request.
  Inside the handler: the request, the status check, and the \<^verbatim>\<open>with\<close> block that opens the
  file, writes every chunk as it arrives and closes the file on the way out, also when
  the stream breaks. A request error gives \<^verbatim>\<open>None\<close>.
\<close>

definition download_application ::
  "world \<Rightarrow> downloader \<Rightarrow> json \<Rightarrow> json \<Rightarrow> event list \<Rightarrow> (exn + string option) \<times> event list" where
  "download_application w self app_name filename tr =
     (let url = info_url w self app_name @ ''/download/'' @ fmt w filename;
          tr1 = tr @ log_endpoint self (Calling_endpoint DownloadEP url)
      in case path_join (download_dir self) app_name of
           Inl e \<Rightarrow> (Inl e, tr1)
         | Inr app_dir \<Rightarrow>
             (let tr2 = tr1 @ [MakeDirs app_dir]
              in case path_join app_dir filename of
                   Inl e \<Rightarrow> (Inl e, tr2)
                 | Inr output_path \<Rightarrow>
                     (case session_get w self DownloadEP url True tr2 of
                        (response, tr3) \<Rightarrow>
                          if \<not> transport_ok response \<or> raises_for_status response
                          then (Inr None, tr3 @ [Print (Error_downloading app_name)])
                          else
                            (let tr4 = tr3 @ [OpenWrite output_path]
                                           @ map (WriteData output_path) (chunks response)
                                           @ [CloseFile output_path]
                             in if stream_ok response then (Inr (Some output_path), tr4)
                                else (Inr None, tr4 @ [Print (Error_downloading app_name)])))))"

section \<open>The batch\<close>

text \<open>
  The inner \<^verbatim>\<open>try\<close> block of the loop with its handler (lines 176 to 195): whatever is
  raised in it is printed and the iteration ends. The last test is \<^verbatim>\<open>if output_path:\<close>,
  false for \<^verbatim>\<open>None\<close> and for an empty string.
\<close>

definition try_body :: "world \<Rightarrow> downloader \<Rightarrow> json \<Rightarrow> event list \<Rightarrow> event list" where
  "try_body w self app_name tr =
     (case get_application_info w self app_name tr of
        (Inl e, tr1) \<Rightarrow> tr1 @ [Print (Error_processing app_name e)]
      | (Inr app_info, tr1) \<Rightarrow>
          (case dict_get app_info ''filename'' of
             Inl e \<Rightarrow> tr1 @ [Print (Error_processing app_name e)]
           | Inr filename \<Rightarrow>
               if \<not> truthy filename
               then tr1 @ [Print (Filename_not_found app_name), Print (Received_json app_info)]
               else
                 (case download_application w self app_name filename
                         (tr1 @ [Print (Downloading_file filename)]) of
                    (Inl e, tr2) \<Rightarrow> tr2 @ [Print (Error_processing app_name e)]
                  | (Inr output_path, tr2) \<Rightarrow>
                      tr2 @ [Print (case output_path of
                                      None \<Rightarrow> Download_failed app_name
                                    | Some p \<Rightarrow> if p \<noteq> [] then Download_completed p
                                               else Download_failed app_name)])))"

text \<open>
  The \<^verbatim>\<open>for\<close> loop (lines 169 to 195). The identifier is read outside the inner
  \<^verbatim>\<open>try\<close>, so an error there leaves the loop.
\<close>

fun process_loop ::
  "world \<Rightarrow> downloader \<Rightarrow> nat \<Rightarrow> nat \<Rightarrow> json list \<Rightarrow> event list \<Rightarrow> (exn + unit) \<times> event list" where
  "process_loop w self total_apps index [] tr = (Inr (), tr)"
| "process_loop w self total_apps index (app # rest) tr =
     (case dict_get app ''domain'' of
        Inl e \<Rightarrow> (Inl e, tr)
      | Inr app_name \<Rightarrow>
          if \<not> truthy app_name then process_loop w self total_apps (Suc index) rest tr
          else process_loop w self total_apps (Suc index) rest
                 (try_body w self app_name (tr @ [Print (Processing index total_apps app_name)])))"

text \<open>Lines 160 to 167: the list as it was received is written to the run directory.\<close>

definition json_path :: "world \<Rightarrow> downloader \<Rightarrow> event list \<Rightarrow> string" where
  "json_path w self tr =
     os_path_join (download_dir self) (''applications_list_'' @ strftime (clock w tr) @ ''.json'')"

definition save_snapshot :: "world \<Rightarrow> downloader \<Rightarrow> json \<Rightarrow> event list \<Rightarrow> event list" where
  "save_snapshot w self applications tr =
     (let p = json_path w self tr
      in tr @ [OpenWrite p, WriteData p (json_dumps w applications), CloseFile p,
               Print (Saved_json p)])"

text \<open>\<^verbatim>\<open>process_all_applications\<close>: the outer handler prints whatever leaves the body.\<close>

definition process_all_applications :: "world \<Rightarrow> downloader \<Rightarrow> event list \<Rightarrow> event list" where
  "process_all_applications w self tr =
     (case get_applications w self (tr @ [Print Starting]) of
        (Inl e, tr1) \<Rightarrow> tr1 @ [Print (Error_during_process e)]
      | (Inr applications, tr1) \<Rightarrow>
          (case py_iter applications of
             Inl e \<Rightarrow> tr1 @ [Print (Error_during_process e)]
           | Inr items \<Rightarrow>
               (let total_apps = length items;
                    tr2 = save_snapshot w self applications (tr1 @ [Print (Found total_apps)])
                in case process_loop w self total_apps 1 items tr2 of
                     (Inl e, tr3) \<Rightarrow> tr3 @ [Print (Error_during_process e)]
                   | (Inr u, tr3) \<Rightarrow> tr3)))"

definition main :: "world \<Rightarrow> event list" where
  "main w =
     (case init w of
        (Inl e, tr) \<Rightarrow> tr @ [Print (Fatal_error e)]
      | (Inr downloader, tr) \<Rightarrow> process_all_applications w downloader tr @ [Print Completed])"

section \<open>Reading a trace\<close>

fun is_http :: "event \<Rightarrow> bool" where
  "is_http (HttpPost url form) = True"
| "is_http (HttpGet ep url hs stream) = True"
| "is_http _ = False"

fun is_call :: "endpoint \<Rightarrow> event \<Rightarrow> bool" where
  "is_call ep (HttpGet ep' url hs stream) = (ep = ep')"
| "is_call ep _ = False"

fun is_remove :: "event \<Rightarrow> bool" where
  "is_remove (RemovePath p) = True"
| "is_remove _ = False"

text \<open>The headers a GET carries; other events carry none.\<close>

fun headers_of :: "event \<Rightarrow> (string \<times> string) list" where
  "headers_of (HttpGet ep url hs stream) = hs"
| "headers_of _ = []"

fun is_get :: "event \<Rightarrow> bool" where
  "is_get (HttpGet ep url hs stream) = True"
| "is_get _ = False"

text \<open>
  The disk as the events leave it: opening a file for writing creates or empties it, a
  write appends, and only a removal takes a file or a directory away.
\<close>

record disk =
  files :: "string \<Rightarrow> string option"
  dirs :: "string set"

fun fs_step :: "disk \<Rightarrow> event \<Rightarrow> disk" where
  "fs_step d (MakeDirs p) = d\<lparr>dirs := insert p (dirs d)\<rparr>"
| "fs_step d (OpenWrite p) = d\<lparr>files := (files d)(p \<mapsto> [])\<rparr>"
| "fs_step d (WriteData p x) =
     d\<lparr>files := (files d)(p \<mapsto> (case files d p of None \<Rightarrow> x | Some c \<Rightarrow> c @ x))\<rparr>"
| "fs_step d (RemovePath p) = d\<lparr>files := (files d)(p := None), dirs := dirs d - {p}\<rparr>"
| "fs_step d _ = d"

definition disk_after :: "disk \<Rightarrow> event list \<Rightarrow> disk" where
  "disk_after d tr = foldl fs_step d tr"


section \<open>Sample surroundings\<close>

text \<open>
  Concrete runs used to instantiate the results below. The sample network answers by the
  last letter of the requested address: the detail of an application ending in \<open>a\<close>
  fails with status 500, one ending in \<open>b\<close> has no file name, one ending in \<open>c\<close>
  names a file whose download breaks after two chunks, any other names a file that
  downloads.
\<close>

definition reply_json :: "json \<Rightarrow> reply" where
  "reply_json v = \<lparr>transport_ok = True, status_code = 200, json_body = Some v, chunks = [], stream_ok = True\<rparr>"

definition reply_status :: "nat \<Rightarrow> reply" where
  "reply_status n = \<lparr>transport_ok = True, status_code = n, json_body = None, chunks = [], stream_ok = True\<rparr>"

definition reply_stream :: "string list \<Rightarrow> bool \<Rightarrow> reply" where
  "reply_stream cs ok = \<lparr>transport_ok = True, status_code = 200, json_body = None, chunks = cs, stream_ok = ok\<rparr>"

definition example_http :: "json \<Rightarrow> event list \<Rightarrow> reply" where
  "example_http listing tr =
     (case rev tr of
        HttpPost url form # _ \<Rightarrow> reply_json (JObj [(''access_token'', JStr ''t0k'')])
      | HttpGet ListEP url hs stream # _ \<Rightarrow> reply_json listing
      | HttpGet InfoEP url hs stream # _ \<Rightarrow>
          (if last url = CHR ''a'' then reply_status 500
           else if last url = CHR ''b'' then reply_json (JObj [(''status'', JStr ''STARTED'')])
           else if last url = CHR ''c'' then reply_json (JObj [(''filename'', JStr ''c.bin'')])
           else reply_json (JObj [(''filename'', JStr ''d.jar'')]))
      | HttpGet DownloadEP url hs stream # _ \<Rightarrow>
          (if last url = CHR ''n'' then reply_stream [''PK'', ''34''] False
           else reply_stream [''PK'', ''56''] True)
      | _ \<Rightarrow> reply_status 404)"

definition example_environ :: "string \<Rightarrow> string \<Rightarrow> string option" where
  "example_environ selector var =
     (if var = ''ANYPOINT_CLIENT_ID'' then Some ''id''
      else if var = ''ANYPOINT_CLIENT_SECRET'' then Some ''secret''
      else if var = ''ANYPOINT_ORG_ID'' then Some ''org''
      else if var = ''ANYPOINT_ENV_ID'' then Some ''env''
      else if var = ''ENABLE_ENDPOINT_LOGGING'' then Some ''false''
      else if var = ''ANYPOINT_CONTROL_PLANE'' then Some selector
      else None)"

definition example_time :: datetime where
  "example_time = \<lparr>dt_year = 2024, dt_month = 3, dt_day = 9, dt_hour = 14, dt_minute = 5,
                    dt_second = 7, dt_microsecond = 0\<rparr>"

definition example_world :: "string \<Rightarrow> json \<Rightarrow> world" where
  "example_world selector listing =
     \<lparr>environ = example_environ selector, http = example_http listing,
      clock = (\<lambda>tr. example_time),
      py_str = (\<lambda>v. ''?''),
      json_dumps = (\<lambda>v. if v = JArr [] then ''[]'' else ''...''),
      json_loads = (\<lambda>s. if s = ''[]'' then Some (JArr []) else None),
      default_headers = [(''Accept'', ''*/*'')]\<rparr>"

definition example_downloader :: downloader where
  "example_downloader =
     \<lparr>enable_endpoint_logging = False, control_plane = ''us'',
      config = \<lparr>client_id = ''id'', client_secret = ''secret'', organization_id = ''org'',
                environment_id = ''env''\<rparr>,
      auth_url = ''A'', base_url = ''B'',
      session_headers = [(''Authorization'', ''Bearer t0k''), (''x-anypnt-env-id'', ''env''),
                         (''x-anypnt-org-id'', ''org'')],
      download_dir = ''downloads_20240309_140507''\<rparr>"

definition app :: "string \<Rightarrow> json" where
  "app name = JObj [(''domain'', JStr name)]"

text \<open>The object and the trace that initialization gives in the sample surroundings.\<close>

definition started_downloader :: downloader where
  "started_downloader =
     \<lparr>enable_endpoint_logging = False, control_plane = ''us'',
      config = \<lparr>client_id = ''id'', client_secret = ''secret'', organization_id = ''org'',
                environment_id = ''env''\<rparr>,
      auth_url = ''https://anypoint.mulesoft.com/accounts/api/v2/oauth2/token'',
      base_url = ''https://anypoint.mulesoft.com/cloudhub/api'',
      session_headers = [(''Authorization'', ''Bearer t0k''),
                         (''Content-Type'', ''application/json''),
                         (''x-anypnt-env-id'', ''env''), (''x-anypnt-org-id'', ''org''),
                         (''Accept'', ''*/*'')],
      download_dir = ''downloads_20240309_140507''\<rparr>"

definition startup_trace :: "event list" where
  "startup_trace =
     [HttpPost ''https://anypoint.mulesoft.com/accounts/api/v2/oauth2/token''
        [(''grant_type'', ''client_credentials''), (''client_id'', ''id''),
         (''client_secret'', ''secret'')],
      MakeDirs ''downloads_20240309_140507'']"




definition offline_http :: "event list \<Rightarrow> reply" where
  "offline_http tr =
     (case rev tr of
        HttpPost url form # _ \<Rightarrow> reply_json (JObj [(''access_token'', JStr ''t0k'')])
      | _ \<Rightarrow> reply_status 503)"

definition offline_world :: world where
  "offline_world = (example_world ''us'' JNull)\<lparr>http := offline_http\<rparr>"

definition empty_disk :: disk where
  "empty_disk = \<lparr>files = (\<lambda>p. None), dirs = {}\<rparr>"

section \<open>The shape of the traces\<close>

text \<open>Each method only appends events; the lemmas say which.\<close>

lemma session_get_trace:
  "session_get w self ep url stream tr = (http w (tr @ [HttpGet ep url (session_headers self) stream]), tr @ [HttpGet ep url (session_headers self) stream])"
  by (simp add: session_get_def Let_def)

lemma get_application_info_trace:
  "snd (get_application_info w self a tr) =
     tr @ log_endpoint self (Calling_endpoint InfoEP (info_url w self a))
        @ [HttpGet InfoEP (info_url w self a) (session_headers self) False]"
  by (simp add: get_application_info_def session_get_def Let_def split: option.splits)

lemma get_applications_trace:
  "\<exists>evs. snd (get_applications w self tr) =
     tr @ evs @ [HttpGet ListEP (base_url self @ ''/applications'') (session_headers self) False]
     \<and> (\<forall>e\<in>set evs. \<not> is_http e \<and> \<not> is_remove e)"
  by (simp add: get_applications_def session_get_def Let_def log_endpoint_def split: option.splits)

lemma download_application_trace:
  "\<exists>evs. snd (download_application w self a f tr) = tr @ evs
     \<and> (\<forall>e\<in>set evs. \<not> is_call InfoEP e \<and> \<not> is_call ListEP e \<and> \<not> is_remove e
           \<and> (is_get e \<longrightarrow> headers_of e = session_headers self))"
  by (auto simp add: download_application_def session_get_def Let_def log_endpoint_def split: sum.splits)

lemma try_body_trace:
  "\<exists>evs. try_body w self a tr =
      tr @ log_endpoint self (Calling_endpoint InfoEP (info_url w self a))
        @ [HttpGet InfoEP (info_url w self a) (session_headers self) False] @ evs
     \<and> (\<forall>e\<in>set evs. \<not> is_call InfoEP e \<and> \<not> is_call ListEP e \<and> \<not> is_remove e
           \<and> (is_get e \<longrightarrow> headers_of e = session_headers self))"
proof -
  obtain r tr1 where g: "get_application_info w self a tr = (r, tr1)" by force
  have t1: "tr1 = tr @ log_endpoint self (Calling_endpoint InfoEP (info_url w self a))
        @ [HttpGet InfoEP (info_url w self a) (session_headers self) False]"
    using get_application_info_trace [of w self a tr] g by simp
  show ?thesis
  proof (cases r)
    case (Inl e)
    then show ?thesis using g t1 by (simp add: try_body_def)
  next
    case (Inr info)
    show ?thesis
    proof (cases "dict_get info ''filename''")
      case (Inl e)
      then show ?thesis using g t1 Inr by (simp add: try_body_def)
    next
      case fn: (Inr f)
      show ?thesis
      proof (cases "truthy f")
        case False
        then show ?thesis using g t1 Inr fn by (simp add: try_body_def)
      next
        case True
        obtain r2 tr2 where d: "download_application w self a f (tr1 @ [Print (Downloading_file f)]) = (r2, tr2)"
          by force
        obtain evs where e: "tr2 = tr1 @ [Print (Downloading_file f)] @ evs"
          and q: "\<forall>e\<in>set evs. \<not> is_call InfoEP e \<and> \<not> is_call ListEP e \<and> \<not> is_remove e
           \<and> (is_get e \<longrightarrow> headers_of e = session_headers self)"
          using download_application_trace [of w self a f "tr1 @ [Print (Downloading_file f)]"] d by auto
        show ?thesis using g Inr fn True d e q t1
          by (cases r2) (auto simp add: try_body_def)
      qed
    qed
  qed
qed

lemma try_body_prefix:
  "\<exists>evs. try_body w self a tr = tr @ evs
     \<and> (\<forall>e\<in>set evs. \<not> is_call ListEP e \<and> \<not> is_remove e
           \<and> (is_get e \<longrightarrow> headers_of e = session_headers self))"
proof -
  obtain evs where "try_body w self a tr =
      tr @ log_endpoint self (Calling_endpoint InfoEP (info_url w self a))
        @ [HttpGet InfoEP (info_url w self a) (session_headers self) False] @ evs"
    and "\<forall>e\<in>set evs. \<not> is_call InfoEP e \<and> \<not> is_call ListEP e \<and> \<not> is_remove e
           \<and> (is_get e \<longrightarrow> headers_of e = session_headers self)"
    using try_body_trace [of w self a tr] by blast
  then show ?thesis by (auto simp add: log_endpoint_def)
qed


lemma process_loop_prefix:
  "\<exists>evs. snd (process_loop w self n i apps tr) = tr @ evs
     \<and> (\<forall>e\<in>set evs. \<not> is_call ListEP e \<and> \<not> is_remove e
           \<and> (is_get e \<longrightarrow> headers_of e = session_headers self))"
proof (induction apps arbitrary: i tr)
  case Nil
  then show ?case by simp
next
  case (Cons app rest)
  show ?case
  proof (cases "dict_get app ''domain''")
    case (Inl e)
    then show ?thesis by simp
  next
    case (Inr name)
    show ?thesis
    proof (cases "truthy name")
      case False
      then show ?thesis using Inr Cons.IH [of "Suc i" tr] by simp
    next
      case True
      obtain evs1 where b: "try_body w self name (tr @ [Print (Processing i n name)])
                             = (tr @ [Print (Processing i n name)]) @ evs1"
        and q1: "\<forall>e\<in>set evs1. \<not> is_call ListEP e \<and> \<not> is_remove e
           \<and> (is_get e \<longrightarrow> headers_of e = session_headers self)"
        using try_body_prefix [of w self name "tr @ [Print (Processing i n name)]"] by blast
      obtain evs2 where r: "snd (process_loop w self n (Suc i) rest
                                  (try_body w self name (tr @ [Print (Processing i n name)])))
                            = try_body w self name (tr @ [Print (Processing i n name)]) @ evs2"
        and q2: "\<forall>e\<in>set evs2. \<not> is_call ListEP e \<and> \<not> is_remove e
           \<and> (is_get e \<longrightarrow> headers_of e = session_headers self)"
        using Cons.IH [of "Suc i" "try_body w self name (tr @ [Print (Processing i n name)])"] by blast
      have "snd (process_loop w self n i (app # rest) tr)
              = tr @ ([Print (Processing i n name)] @ evs1 @ evs2)"
        using Inr True b r by simp
      moreover have "\<forall>e\<in>set ([Print (Processing i n name)] @ evs1 @ evs2).
           \<not> is_call ListEP e \<and> \<not> is_remove e
           \<and> (is_get e \<longrightarrow> headers_of e = session_headers self)"
        using q1 q2 by auto
      ultimately show ?thesis by blast
    qed
  qed
qed



lemma process_loop_append:
  "\<forall>a\<in>set pre. is_record a \<Longrightarrow>
     process_loop w self n i (pre @ post) tr =
       process_loop w self n (i + length pre) post (snd (process_loop w self n i pre tr))"
proof (induction pre arbitrary: i tr)
  case Nil
  then show ?case by simp
next
  case (Cons app rest)
  then obtain kvs where "app = JObj kvs" by (cases app) auto
  then show ?case using Cons by simp
qed


lemma process_loop_nonrecord:
  "\<not> is_record x \<Longrightarrow> process_loop w self n i (x # post) tr = (Inl AttributeError, tr)"
  by (cases x) simp_all


lemmas ex_defs = example_world_def example_http_def example_downloader_def app_def
  reply_json_def reply_status_def reply_stream_def
  get_application_info_def session_get_def info_url_def log_endpoint_def fmt_def
  raises_for_status_def try_body_def download_application_def os_path_join_def Let_def

section \<open>Properties\<close>



lemma process_all_applications_listed:
  assumes "get_applications w self (tr @ [Print Starting]) = (Inr v, tr1)"
    and "py_iter v = Inr items"
  shows "process_all_applications w self tr =
           (case process_loop w self (length items) 1 items
                   (save_snapshot w self v (tr1 @ [Print (Found (length items))])) of
              (Inl e, tr3) \<Rightarrow> tr3 @ [Print (Error_during_process e)]
            | (Inr u, tr3) \<Rightarrow> tr3)"
  using assms by (simp add: process_all_applications_def Let_def)

text \<open>
  C10. When the list holds an element that is not a record, reading its identifier raises
  outside the inner handler: the run consists of the items before that element, followed
  at once by the message of the outer handler of \<^verbatim>\<open>process_all_applications\<close>. Neither
  the element nor any element after it is processed.
\<close>

theorem non_record_element_ends_loop:
  assumes "get_applications w self (tr @ [Print Starting]) = (Inr (JArr (pre @ x # post)), tr1)"
    and "\<forall>a\<in>set pre. is_record a"
    and "\<not> is_record x"
  shows "process_all_applications w self tr =
           snd (process_loop w self (length (pre @ x # post)) 1 pre
                 (save_snapshot w self (JArr (pre @ x # post))
                    (tr1 @ [Print (Found (length (pre @ x # post)))])))
           @ [Print (Error_during_process AttributeError)]"
proof -
  let ?n = "length (pre @ x # post)"
  let ?tr2 = "save_snapshot w self (JArr (pre @ x # post)) (tr1 @ [Print (Found ?n)])"
  have "process_loop w self ?n 1 (pre @ x # post) ?tr2 =
          process_loop w self ?n (1 + length pre) (x # post) (snd (process_loop w self ?n 1 pre ?tr2))"
    using process_loop_append [OF assms(2)] by blast
  also have "\<dots> = (Inl AttributeError, snd (process_loop w self ?n 1 pre ?tr2))"
    using process_loop_nonrecord [OF assms(3)] by blast
  finally have "process_loop w self ?n 1 (pre @ x # post) ?tr2 =
          (Inl AttributeError, snd (process_loop w self ?n 1 pre ?tr2))" .
  then show ?thesis
    using process_all_applications_listed [OF assms(1), of "pre @ x # post"] by simp
qed

lemma get_applications_example:
  "get_applications (example_world ''us'' v) example_downloader (tr @ [Print Starting]) =
     (Inr v, tr @ [Print Starting, HttpGet ListEP ''B/applications'' (session_headers example_downloader) False])"
  by (simp add: get_applications_def ex_defs)

theorem non_record_element_ends_loop_witness:
  "get_applications (example_world ''us'' (JArr ([app ''b''] @ JStr ''stray'' # [app ''d''])))
      example_downloader ([] @ [Print Starting]) =
     (Inr (JArr ([app ''b''] @ JStr ''stray'' # [app ''d''])),
      [Print Starting, HttpGet ListEP ''B/applications'' (session_headers example_downloader) False])
   \<and> is_record (app ''b'') \<and> \<not> is_record (JStr ''stray'')
   \<and> process_all_applications (example_world ''us'' (JArr ([app ''b''] @ JStr ''stray'' # [app ''d''])))
        example_downloader [] =
      [Print Starting,
       HttpGet ListEP ''B/applications'' (session_headers example_downloader) False,
       Print (Found 3),
       OpenWrite ''downloads_20240309_140507/applications_list_20240309_140507.json'',
       WriteData ''downloads_20240309_140507/applications_list_20240309_140507.json'' ''...'',
       CloseFile ''downloads_20240309_140507/applications_list_20240309_140507.json'',
       Print (Saved_json ''downloads_20240309_140507/applications_list_20240309_140507.json''),
       Print (Processing 1 3 (JStr ''b'')),
       HttpGet InfoEP ''B/organizations/org/environments/env/applications/b''
         (session_headers example_downloader) False,
       Print (Filename_not_found (JStr ''b'')),
       Print (Received_json (JObj [(''status'', JStr ''STARTED'')])),
       Print (Error_during_process AttributeError)]"
proof -
  let ?w = "example_world ''us'' (JArr ([app ''b''] @ JStr ''stray'' # [app ''d'']))"
  have g: "get_applications ?w example_downloader ([] @ [Print Starting]) =
     (Inr (JArr ([app ''b''] @ JStr ''stray'' # [app ''d''])),
      [Print Starting, HttpGet ListEP ''B/applications'' (session_headers example_downloader) False])"
    using get_applications_example [of _ "[]"] by simp
  have r: "\<forall>a\<in>set [app ''b'']. is_record a" by (simp add: app_def)
  have n: "\<not> is_record (JStr ''stray'')" by simp
  have s: "strftime example_time = ''20240309_140507''"
    by code_simp
  have l: "snd (process_loop ?w example_downloader 3 1 [app ''b'']
             (save_snapshot ?w example_downloader (JArr ([app ''b''] @ JStr ''stray'' # [app ''d'']))
                ([Print Starting, HttpGet ListEP ''B/applications'' (session_headers example_downloader) False]
                  @ [Print (Found 3)]))) =
      [Print Starting,
       HttpGet ListEP ''B/applications'' (session_headers example_downloader) False,
       Print (Found 3),
       OpenWrite ''downloads_20240309_140507/applications_list_20240309_140507.json'',
       WriteData ''downloads_20240309_140507/applications_list_20240309_140507.json'' ''...'',
       CloseFile ''downloads_20240309_140507/applications_list_20240309_140507.json'',
       Print (Saved_json ''downloads_20240309_140507/applications_list_20240309_140507.json''),
       Print (Processing 1 3 (JStr ''b'')),
       HttpGet InfoEP ''B/organizations/org/environments/env/applications/b''
         (session_headers example_downloader) False,
       Print (Filename_not_found (JStr ''b'')),
       Print (Received_json (JObj [(''status'', JStr ''STARTED'')]))]"
    by (simp add: save_snapshot_def json_path_def s ex_defs)
  have len: "length ([app ''b''] @ JStr ''stray'' # [app ''d'']) = 3" by simp
  have r': "is_record (app ''b'')" by (simp add: app_def)
  note t = non_record_element_ends_loop [OF g r n, unfolded len l]
  show ?thesis
    using g r' n t by simp
qed



lemma process_all_applications_prefix:
  "\<exists>evs. process_all_applications w self tr = tr @ evs
     \<and> (\<forall>e\<in>set evs. \<not> is_remove e \<and> (is_get e \<longrightarrow> headers_of e = session_headers self))"
proof -
  let ?Q = "\<lambda>e. \<not> is_remove e \<and> (is_get e \<longrightarrow> headers_of e = session_headers self)"
  obtain r tr1 where g: "get_applications w self (tr @ [Print Starting]) = (r, tr1)" by force
  obtain evs0 where "tr1 = (tr @ [Print Starting]) @ evs0
              @ [HttpGet ListEP (base_url self @ ''/applications'') (session_headers self) False]"
    and "\<forall>e\<in>set evs0. \<not> is_http e \<and> \<not> is_remove e"
    using get_applications_trace [of w self "tr @ [Print Starting]"] g by auto
  moreover have "\<not> is_http e \<Longrightarrow> \<not> is_get e" for e by (cases e) simp_all
  ultimately obtain evs1 where t1: "tr1 = tr @ evs1" and q1: "\<forall>e\<in>set evs1. ?Q e"
    by auto
  show ?thesis
  proof (cases r)
    case (Inl e)
    then have "process_all_applications w self tr = tr @ (evs1 @ [Print (Error_during_process e)])"
      using g t1 by (simp add: process_all_applications_def)
    moreover have "\<forall>e\<in>set (evs1 @ [Print (Error_during_process e)]). ?Q e" using q1 by auto
    ultimately show ?thesis by blast
  next
    case (Inr v)
    show ?thesis
    proof (cases "py_iter v")
      case (Inl e)
      then have "process_all_applications w self tr = tr @ (evs1 @ [Print (Error_during_process e)])"
        using g t1 Inr by (simp add: process_all_applications_def)
      moreover have "\<forall>e\<in>set (evs1 @ [Print (Error_during_process e)]). ?Q e" using q1 by auto
      ultimately show ?thesis by blast
    next
      case it: (Inr items)
      let ?tr2 = "save_snapshot w self v (tr1 @ [Print (Found (length items))])"
      obtain evs2 where t2: "?tr2 = tr @ evs2" and q2: "\<forall>e\<in>set evs2. ?Q e"
        using t1 q1 by (simp add: save_snapshot_def Let_def)
      obtain evs3 where t3: "snd (process_loop w self (length items) 1 items ?tr2) = ?tr2 @ evs3"
        and q3: "\<forall>e\<in>set evs3. ?Q e"
        using process_loop_prefix [of w self "length items" 1 items ?tr2] by blast
      obtain r3 tr3 where l: "process_loop w self (length items) 1 items ?tr2 = (r3, tr3)" by force
      have e3: "tr3 = tr @ (evs2 @ evs3)" using t3 l t2 by simp
      have run: "process_all_applications w self tr =
           (case (r3, tr3) of
              (Inl e, tr3) \<Rightarrow> tr3 @ [Print (Error_during_process e)]
            | (Inr u, tr3) \<Rightarrow> tr3)"
        using process_all_applications_listed [OF g [unfolded Inr] it] l by simp
      show ?thesis
      proof (cases r3)
        case (Inl e)
        then have "process_all_applications w self tr
                     = tr @ (evs2 @ evs3 @ [Print (Error_during_process e)])"
          using run e3 by simp
        moreover have "\<forall>e\<in>set (evs2 @ evs3 @ [Print (Error_during_process e)]). ?Q e"
          using q2 q3 by auto
        ultimately show ?thesis by blast
      next
        case (Inr u)
        then have "process_all_applications w self tr = tr @ (evs2 @ evs3)"
          using run e3 by simp
        moreover have "\<forall>e\<in>set (evs2 @ evs3). ?Q e" using q2 q3 by auto
        ultimately show ?thesis by blast
      qed
    qed
  qed
qed



text \<open>
  C5. When the detail of an application comes back without a file name (absent, or a value
  that tests false), the iteration prints the two messages of the skip, issues no download
  request, and the loop goes on with the next item.
\<close>

theorem missing_filename_skips_download:
  assumes "dict_get item ''domain'' = Inr name" and "truthy name"
    and "get_application_info w self name (tr @ [Print (Processing i n name)]) = (Inr info, tr1)"
    and "dict_get info ''filename'' = Inr f" and "\<not> truthy f"
  shows "process_loop w self n i (item # rest) tr =
           process_loop w self n (Suc i) rest
             (tr1 @ [Print (Filename_not_found name), Print (Received_json info)])
       \<and> filter (is_call DownloadEP)
           (drop (length tr) (tr1 @ [Print (Filename_not_found name), Print (Received_json info)])) = []"
proof -
  have t1: "tr1 = (tr @ [Print (Processing i n name)])
        @ log_endpoint self (Calling_endpoint InfoEP (info_url w self name))
        @ [HttpGet InfoEP (info_url w self name) (session_headers self) False]"
    using get_application_info_trace [of w self name "tr @ [Print (Processing i n name)]"] assms(3)
    by simp
  have "try_body w self name (tr @ [Print (Processing i n name)])
          = tr1 @ [Print (Filename_not_found name), Print (Received_json info)]"
    using assms(3,4,5) by (simp add: try_body_def)
  then have a: "process_loop w self n i (item # rest) tr =
           process_loop w self n (Suc i) rest
             (tr1 @ [Print (Filename_not_found name), Print (Received_json info)])"
    using assms(1,2) by simp
  have b: "filter (is_call DownloadEP)
           (drop (length tr) (tr1 @ [Print (Filename_not_found name), Print (Received_json info)])) = []"
    by (simp add: t1 log_endpoint_def)
  show ?thesis using a b by blast
qed

theorem missing_filename_skips_download_witness:
  "dict_get (app ''b'') ''domain'' = Inr (JStr ''b'') \<and> truthy (JStr ''b'')
   \<and> get_application_info (example_world ''us'' JNull) example_downloader (JStr ''b'')
        ([] @ [Print (Processing 1 2 (JStr ''b''))]) =
       (Inr (JObj [(''status'', JStr ''STARTED'')]),
        [Print (Processing 1 2 (JStr ''b'')),
         HttpGet InfoEP ''B/organizations/org/environments/env/applications/b''
           (session_headers example_downloader) False])
   \<and> dict_get (JObj [(''status'', JStr ''STARTED'')]) ''filename'' = Inr JNull \<and> \<not> truthy JNull
   \<and> process_loop (example_world ''us'' JNull) example_downloader 2 1 (app ''b'' # [app ''d'']) [] =
       process_loop (example_world ''us'' JNull) example_downloader 2 (Suc 1) [app ''d'']
         ([Print (Processing 1 2 (JStr ''b'')),
           HttpGet InfoEP ''B/organizations/org/environments/env/applications/b''
             (session_headers example_downloader) False]
          @ [Print (Filename_not_found (JStr ''b'')),
             Print (Received_json (JObj [(''status'', JStr ''STARTED'')]))])"
proof -
  have a: "dict_get (app ''b'') ''domain'' = Inr (JStr ''b'')" by (simp add: app_def)
  have b: "truthy (JStr ''b'')" by simp
  have c: "get_application_info (example_world ''us'' JNull) example_downloader (JStr ''b'')
        ([] @ [Print (Processing 1 2 (JStr ''b''))]) =
       (Inr (JObj [(''status'', JStr ''STARTED'')]),
        [Print (Processing 1 2 (JStr ''b'')),
         HttpGet InfoEP ''B/organizations/org/environments/env/applications/b''
           (session_headers example_downloader) False])"
    by (simp add: ex_defs)
  have d: "dict_get (JObj [(''status'', JStr ''STARTED'')]) ''filename'' = Inr JNull" by simp
  have e: "\<not> truthy JNull" by simp
  show ?thesis
    using a b c d e
      missing_filename_skips_download [OF a b c d e, of "[app ''d'']", THEN conjunct1]
    by blast
qed

lemma disk_after_append: "disk_after d (xs @ ys) = disk_after (disk_after d xs) ys"
  by (simp add: disk_after_def)

lemma disk_after_writes:
  "files d p = Some c \<Longrightarrow>
     files (disk_after d (map (WriteData p) cs)) p = Some (c @ concat cs)
     \<and> dirs (disk_after d (map (WriteData p) cs)) = dirs d"
proof (induction cs arbitrary: d c)
  case Nil
  then show ?case by (simp add: disk_after_def)
next
  case (Cons x xs)
  have "files (fs_step d (WriteData p x)) p = Some (c @ x)" using Cons.prems by simp
  from Cons.IH [OF this] show ?case by (simp add: disk_after_def)
qed

text \<open>
  C9. A download whose stream breaks after the request succeeded returns \<^verbatim>\<open>None\<close>; the
  directory of the application was made before the request; the file holds the chunks
  received before the failure; nothing is removed.
\<close>

theorem broken_download_leaves_partial_file:
  assumes "path_join (download_dir self) app_name = Inr app_dir"
    and "path_join app_dir filename = Inr output_path"
    and "session_get w self DownloadEP (info_url w self app_name @ ''/download/'' @ fmt w filename) True
           (tr @ log_endpoint self (Calling_endpoint DownloadEP
                    (info_url w self app_name @ ''/download/'' @ fmt w filename))
               @ [MakeDirs app_dir]) = (response, tr3)"
    and "transport_ok response" and "\<not> raises_for_status response" and "\<not> stream_ok response"
  shows "download_application w self app_name filename tr =
           (Inr None, tr3 @ [OpenWrite output_path] @ map (WriteData output_path) (chunks response)
                          @ [CloseFile output_path, Print (Error_downloading app_name)])
       \<and> files (disk_after d0 (tr3 @ [OpenWrite output_path]
                    @ map (WriteData output_path) (chunks response)
                    @ [CloseFile output_path, Print (Error_downloading app_name)])) output_path
           = Some (concat (chunks response))
       \<and> app_dir \<in> dirs (disk_after d0 (tr3 @ [OpenWrite output_path]
                    @ map (WriteData output_path) (chunks response)
                    @ [CloseFile output_path, Print (Error_downloading app_name)]))
       \<and> filter is_remove (drop (length tr) (tr3 @ [OpenWrite output_path]
                    @ map (WriteData output_path) (chunks response)
                    @ [CloseFile output_path, Print (Error_downloading app_name)])) = []"
proof -
  let ?url = "info_url w self app_name @ ''/download/'' @ fmt w filename"
  let ?tr2 = "tr @ log_endpoint self (Calling_endpoint DownloadEP ?url) @ [MakeDirs app_dir]"
  let ?p = output_path
  let ?tail = "[OpenWrite ?p] @ map (WriteData ?p) (chunks response)
                 @ [CloseFile ?p, Print (Error_downloading app_name)]"
  have t3: "tr3 = ?tr2 @ [HttpGet DownloadEP ?url (session_headers self) True]"
    using assms(3) by (simp add: session_get_def Let_def)
  have a: "download_application w self app_name filename tr = (Inr None, tr3 @ ?tail)"
    using assms by (simp add: download_application_def Let_def)
  let ?d3 = "disk_after d0 tr3"
  have dir3: "app_dir \<in> dirs ?d3"
    by (simp add: t3 disk_after_def)
  let ?d4 = "disk_after ?d3 [OpenWrite ?p]"
  have f4: "files ?d4 ?p = Some []" and dir4: "dirs ?d4 = dirs ?d3"
    by (simp_all add: disk_after_def)
  let ?d5 = "disk_after ?d4 (map (WriteData ?p) (chunks response))"
  have f5: "files ?d5 ?p = Some (concat (chunks response))" and dir5: "dirs ?d5 = dirs ?d4"
    using disk_after_writes [OF f4, of "chunks response"] by simp_all
  let ?d6 = "disk_after ?d5 [CloseFile ?p, Print (Error_downloading app_name)]"
  have f6: "files ?d6 ?p = files ?d5 ?p" and dir6: "dirs ?d6 = dirs ?d5"
    by (simp_all add: disk_after_def)
  have whole: "disk_after d0 (tr3 @ ?tail) = ?d6"
    by (simp only: disk_after_append)
  have b: "files (disk_after d0 (tr3 @ ?tail)) ?p = Some (concat (chunks response))"
    using whole f6 f5 by simp
  have c: "app_dir \<in> dirs (disk_after d0 (tr3 @ ?tail))"
    using whole dir6 dir5 dir4 dir3 by simp
  have d: "filter is_remove (drop (length tr) (tr3 @ ?tail)) = []"
    by (simp add: t3 log_endpoint_def filter_empty_conv)
  show ?thesis using a b c d by blast
qed

theorem broken_download_leaves_partial_file_witness:
  "path_join (download_dir example_downloader) (JStr ''c'') = Inr ''downloads_20240309_140507/c''
   \<and> path_join ''downloads_20240309_140507/c'' (JStr ''c.bin'') = Inr ''downloads_20240309_140507/c/c.bin''
   \<and> transport_ok (reply_stream [''PK'', ''34''] False)
   \<and> \<not> raises_for_status (reply_stream [''PK'', ''34''] False)
   \<and> \<not> stream_ok (reply_stream [''PK'', ''34''] False)
   \<and> download_application (example_world ''us'' JNull) example_downloader (JStr ''c'') (JStr ''c.bin'') [] =
        (Inr None,
         [MakeDirs ''downloads_20240309_140507/c'',
          HttpGet DownloadEP ''B/organizations/org/environments/env/applications/c/download/c.bin''
            (session_headers example_downloader) True,
          OpenWrite ''downloads_20240309_140507/c/c.bin'',
          WriteData ''downloads_20240309_140507/c/c.bin'' ''PK'',
          WriteData ''downloads_20240309_140507/c/c.bin'' ''34'',
          CloseFile ''downloads_20240309_140507/c/c.bin'',
          Print (Error_downloading (JStr ''c''))])
   \<and> files (disk_after empty_disk
         [MakeDirs ''downloads_20240309_140507/c'',
          HttpGet DownloadEP ''B/organizations/org/environments/env/applications/c/download/c.bin''
            (session_headers example_downloader) True,
          OpenWrite ''downloads_20240309_140507/c/c.bin'',
          WriteData ''downloads_20240309_140507/c/c.bin'' ''PK'',
          WriteData ''downloads_20240309_140507/c/c.bin'' ''34'',
          CloseFile ''downloads_20240309_140507/c/c.bin'',
          Print (Error_downloading (JStr ''c''))]) ''downloads_20240309_140507/c/c.bin'' = Some ''PK34''
   \<and> ''downloads_20240309_140507/c'' \<in> dirs (disk_after empty_disk
         [MakeDirs ''downloads_20240309_140507/c'',
          HttpGet DownloadEP ''B/organizations/org/environments/env/applications/c/download/c.bin''
            (session_headers example_downloader) True,
          OpenWrite ''downloads_20240309_140507/c/c.bin'',
          WriteData ''downloads_20240309_140507/c/c.bin'' ''PK'',
          WriteData ''downloads_20240309_140507/c/c.bin'' ''34'',
          CloseFile ''downloads_20240309_140507/c/c.bin'',
          Print (Error_downloading (JStr ''c''))])"
proof -
  let ?w = "example_world ''us'' JNull"
  let ?url = "''B/organizations/org/environments/env/applications/c/download/c.bin''"
  let ?r = "reply_stream [''PK'', ''34''] False"
  have u: "info_url ?w example_downloader (JStr ''c'') @ ''/download/'' @ fmt ?w (JStr ''c.bin'') = ?url"
    by (simp add: info_url_def fmt_def example_downloader_def)
  have l: "log_endpoint example_downloader (Calling_endpoint DownloadEP ?url) = []"
    by (simp add: log_endpoint_def example_downloader_def)
  have a: "path_join (download_dir example_downloader) (JStr ''c'') = Inr ''downloads_20240309_140507/c''"
    by (simp add: example_downloader_def os_path_join_def)
  have b: "path_join ''downloads_20240309_140507/c'' (JStr ''c.bin'') = Inr ''downloads_20240309_140507/c/c.bin''"
    by (simp add: os_path_join_def)
  have c: "session_get ?w example_downloader DownloadEP
             (info_url ?w example_downloader (JStr ''c'') @ ''/download/'' @ fmt ?w (JStr ''c.bin'')) True
             ([] @ log_endpoint example_downloader (Calling_endpoint DownloadEP
                    (info_url ?w example_downloader (JStr ''c'') @ ''/download/'' @ fmt ?w (JStr ''c.bin'')))
               @ [MakeDirs ''downloads_20240309_140507/c''])
           = (?r, [MakeDirs ''downloads_20240309_140507/c'',
                   HttpGet DownloadEP ?url (session_headers example_downloader) True])"
    unfolding u l by (simp add: session_get_def Let_def example_world_def example_http_def)
  have d: "transport_ok ?r" and e: "\<not> raises_for_status ?r" and f: "\<not> stream_ok ?r"
    by (simp_all add: reply_stream_def raises_for_status_def)
  have ch: "chunks ?r = [''PK'', ''34'']" by (simp add: reply_stream_def)
  note t = broken_download_leaves_partial_file [OF a b c d e f, of empty_disk, unfolded ch]
  show ?thesis
    using a b d e f t by simp
qed

lemma lower_us: "lower ''us'' = ''us''" by code_simp
lemma lower_US: "lower ''US'' = ''us''" by code_simp
lemma lower_false: "lower ''false'' = ''false''" by code_simp
lemma lower_mars: "lower ''mars'' = ''mars''" by code_simp

lemma load_config_example:
  assumes "lower s = ''us''"
  shows "load_config (example_world s v) blank =
     Inr \<lparr>enable_endpoint_logging = False, control_plane = ''us'',
          config = \<lparr>client_id = ''id'', client_secret = ''secret'', organization_id = ''org'',
                    environment_id = ''env''\<rparr>,
          auth_url = [], base_url = [], session_headers = [], download_dir = []\<rparr>"
  using assms
  by (simp add: load_config_def example_world_def example_environ_def missing_def required_vars_def
      os_getenv_def lower_false valid_control_planes_def blank_def)

lemma example_world_fields:
  "environ (example_world s v) = example_environ s"
  "http (example_world s v) = example_http v"
  "clock (example_world s v) tr = example_time"
  "default_headers (example_world s v) = [(''Accept'', ''*/*'')]"
  by (simp_all add: example_world_def)

lemma strftime_example: "strftime example_time = ''20240309_140507''"
  by code_simp

lemma init_example:
  assumes "lower s = ''us''"
  shows "init (example_world s v) = (Inr started_downloader, startup_trace)"
  by (simp add: init_def load_config_example [OF assms] setup_base_urls_def control_plane_domains_def
      setup_session_def setup_download_dir_def log_endpoint_def Let_def
      example_world_fields example_http_def reply_json_def raises_for_status_def fmt_def
      strftime_example started_downloader_def startup_trace_def)

lemma load_config_result:
  assumes "load_config w blank = Inr s1"
  shows "config s1 = \<lparr>client_id = os_getenv w ''ANYPOINT_CLIENT_ID'' [],
                        client_secret = os_getenv w ''ANYPOINT_CLIENT_SECRET'' [],
                        organization_id = os_getenv w ''ANYPOINT_ORG_ID'' [],
                        environment_id = os_getenv w ''ANYPOINT_ENV_ID'' []\<rparr>"
  using assms by (auto simp add: load_config_def Let_def split: if_splits)

lemma setup_base_urls_result:
  assumes "setup_base_urls s1 tr = (Inr s2, tr1)"
  shows "config s2 = config s1 \<and> (\<exists>evs. tr1 = tr @ evs \<and> (\<forall>e\<in>set evs. \<not> is_http e \<and> \<not> is_remove e))"
  using assms by (auto simp add: setup_base_urls_def Let_def split: option.splits)

lemma setup_session_result:
  assumes "setup_session w s3 tr1 = (Inr s4, tr2)"
  shows "\<exists>evs body t. tr2 = tr1 @ evs @ [HttpPost (auth_url s3)
                   [(''grant_type'', ''client_credentials''),
                    (''client_id'', client_id (config s3)),
                    (''client_secret'', client_secret (config s3))]]
           \<and> (\<forall>e\<in>set evs. \<not> is_http e \<and> \<not> is_remove e)
           \<and> json_body (http w tr2) = Some body \<and> subscript body ''access_token'' = Inr t
           \<and> s4 = s3\<lparr>session_headers :=
                        [(''Authorization'', ''Bearer '' @ fmt w t),
                         (''Content-Type'', ''application/json''),
                         (''x-anypnt-env-id'', environment_id (config s3)),
                         (''x-anypnt-org-id'', organization_id (config s3))]
                        @ session_headers s3\<rparr>"
  using assms
  by (auto simp add: setup_session_def Let_def log_endpoint_def split: if_splits option.splits sum.splits)

lemma init_result:
  assumes "init w = (Inr d, tr0)"
  shows "\<exists>evs body t.
           tr0 = evs @ [HttpPost (auth_url d)
                   [(''grant_type'', ''client_credentials''),
                    (''client_id'', os_getenv w ''ANYPOINT_CLIENT_ID'' []),
                    (''client_secret'', os_getenv w ''ANYPOINT_CLIENT_SECRET'' [])],
                  MakeDirs (download_dir d)]
           \<and> (\<forall>e\<in>set evs. \<not> is_http e \<and> \<not> is_remove e)
           \<and> json_body (http w (butlast tr0)) = Some body \<and> subscript body ''access_token'' = Inr t
           \<and> session_headers d =
                 [(''Authorization'', ''Bearer '' @ fmt w t),
                  (''Content-Type'', ''application/json''),
                  (''x-anypnt-env-id'', os_getenv w ''ANYPOINT_ENV_ID'' []),
                  (''x-anypnt-org-id'', os_getenv w ''ANYPOINT_ORG_ID'' [])]
                 @ default_headers w
           \<and> download_dir d = ''downloads_'' @ strftime (clock w (butlast tr0))"
proof -
  obtain s1 where l: "load_config w blank = Inr s1"
    using assms by (cases "load_config w blank") (simp_all add: init_def)
  obtain r2 tr1 where b: "setup_base_urls s1 [] = (r2, tr1)" by force
  obtain s2 where r2: "r2 = Inr s2"
    using assms l b by (cases r2) (simp_all add: init_def)
  let ?s3 = "s2\<lparr>session_headers := default_headers w, download_dir := ''downloads''\<rparr>"
  obtain r4 tr2 where ss: "setup_session w ?s3 tr1 = (r4, tr2)" by force
  obtain s4 where r4: "r4 = Inr s4"
    using assms l b r2 ss by (cases r4) (simp_all add: init_def Let_def)
  have fin: "setup_download_dir w s4 tr2 = (d, tr0)"
    using assms l b r2 ss r4 by (simp add: init_def Let_def split: prod.splits)
  have c1: "config s1 = \<lparr>client_id = os_getenv w ''ANYPOINT_CLIENT_ID'' [],
                        client_secret = os_getenv w ''ANYPOINT_CLIENT_SECRET'' [],
                        organization_id = os_getenv w ''ANYPOINT_ORG_ID'' [],
                        environment_id = os_getenv w ''ANYPOINT_ENV_ID'' []\<rparr>"
    using load_config_result [OF l] .
  obtain evs1 where c2: "config s2 = config s1" and t1: "tr1 = evs1"
    and q1: "\<forall>e\<in>set evs1. \<not> is_http e \<and> \<not> is_remove e"
    using setup_base_urls_result [OF b [unfolded r2]] by auto
  obtain evs2 body t where t2: "tr2 = tr1 @ evs2 @ [HttpPost (auth_url ?s3)
                   [(''grant_type'', ''client_credentials''),
                    (''client_id'', client_id (config ?s3)),
                    (''client_secret'', client_secret (config ?s3))]]"
    and q2: "\<forall>e\<in>set evs2. \<not> is_http e \<and> \<not> is_remove e"
    and jb: "json_body (http w tr2) = Some body" and sb: "subscript body ''access_token'' = Inr t"
    and s4: "s4 = ?s3\<lparr>session_headers :=
                        [(''Authorization'', ''Bearer '' @ fmt w t),
                         (''Content-Type'', ''application/json''),
                         (''x-anypnt-env-id'', environment_id (config ?s3)),
                         (''x-anypnt-org-id'', organization_id (config ?s3))]
                        @ session_headers ?s3\<rparr>"
    using setup_session_result [OF ss [unfolded r4]] by blast
  have d: "d = s4\<lparr>download_dir := ''downloads_'' @ strftime (clock w tr2)\<rparr>"
    and t0: "tr0 = tr2 @ [MakeDirs (''downloads_'' @ strftime (clock w tr2))]"
    using fin by (auto simp add: setup_download_dir_def Let_def)
  have bl: "butlast tr0 = tr2" using t0 by simp
  have "tr0 = (evs1 @ evs2) @ [HttpPost (auth_url d)
                   [(''grant_type'', ''client_credentials''),
                    (''client_id'', os_getenv w ''ANYPOINT_CLIENT_ID'' []),
                    (''client_secret'', os_getenv w ''ANYPOINT_CLIENT_SECRET'' [])],
                  MakeDirs (download_dir d)]"
    using t0 t2 t1 d s4 c1 c2 by simp
  moreover have "\<forall>e\<in>set (evs1 @ evs2). \<not> is_http e \<and> \<not> is_remove e"
    using q1 q2 by auto
  moreover have "session_headers d =
                 [(''Authorization'', ''Bearer '' @ fmt w t),
                  (''Content-Type'', ''application/json''),
                  (''x-anypnt-env-id'', os_getenv w ''ANYPOINT_ENV_ID'' []),
                  (''x-anypnt-org-id'', os_getenv w ''ANYPOINT_ORG_ID'' [])]
                 @ default_headers w"
    using d s4 c1 c2 by simp
  moreover have "download_dir d = ''downloads_'' @ strftime (clock w (butlast tr0))"
    using d bl by simp
  ultimately show ?thesis using jb sb bl by blast
qed













text \<open>
  The selector \<open>US\<close> is not one of the three names, yet initialization succeeds and the
  token request is sent: the selector is folded to lower case before it is checked.
\<close>

theorem uppercase_selector_is_accepted:
  "environ (example_world ''US'' JNull) ''ANYPOINT_CONTROL_PLANE'' = Some ''US''
   \<and> ''US'' \<notin> set valid_control_planes
   \<and> init (example_world ''US'' JNull) = (Inr started_downloader, startup_trace)
   \<and> filter is_http (snd (init (example_world ''US'' JNull)))
       = [HttpPost ''https://anypoint.mulesoft.com/accounts/api/v2/oauth2/token''
            [(''grant_type'', ''client_credentials''), (''client_id'', ''id''),
             (''client_secret'', ''secret'')]]"
proof -
  have a: "environ (example_world ''US'' JNull) ''ANYPOINT_CONTROL_PLANE'' = Some ''US''"
    by (simp add: example_world_def example_environ_def)
  have b: "''US'' \<notin> set valid_control_planes" by (simp add: valid_control_planes_def)
  have c: "init (example_world ''US'' JNull) = (Inr started_downloader, startup_trace)"
    using init_example [OF lower_US] .
  show ?thesis using a b c by (simp add: startup_trace_def)
qed

text \<open>
  C3, as amended. When the selector, folded to lower case (and \<open>us\<close> when unset), is not
  one of \<open>us\<close>, \<open>eu1\<close>, \<open>gov\<close>, initialization fails in \<^verbatim>\<open>_load_config\<close> before any
  effect: with the error for a missing required value when one is missing, with the
  selector error otherwise. The whole run is the message of the fatal error; no HTTP
  request is issued.
\<close>

theorem invalid_selector_fails_before_any_request:
  assumes "lower (os_getenv w ''ANYPOINT_CONTROL_PLANE'' ''us'') \<notin> set valid_control_planes"
  shows "init w = (Inl (if filter (missing w) required_vars \<noteq> [] then KeyError else ValueError), [])
       \<and> main w = [Print (Fatal_error (if filter (missing w) required_vars \<noteq> [] then KeyError
                                       else ValueError))]
       \<and> filter is_http (main w) = []"
proof -
  have l: "load_config w blank = Inl (if filter (missing w) required_vars \<noteq> [] then KeyError else ValueError)"
    using assms by (simp add: load_config_def Let_def)
  then have i: "init w = (Inl (if filter (missing w) required_vars \<noteq> [] then KeyError else ValueError), [])"
    by (simp add: init_def)
  then have m: "main w = [Print (Fatal_error (if filter (missing w) required_vars \<noteq> [] then KeyError
                                       else ValueError))]"
    by (simp add: main_def)
  show ?thesis using i m by simp
qed

theorem invalid_selector_fails_before_any_request_witness:
  "lower (os_getenv (example_world ''mars'' JNull) ''ANYPOINT_CONTROL_PLANE'' ''us'')
      \<notin> set valid_control_planes
   \<and> init (example_world ''mars'' JNull) = (Inl ValueError, [])
   \<and> main (example_world ''mars'' JNull) = [Print (Fatal_error ValueError)]"
proof -
  let ?w = "example_world ''mars'' JNull"
  have g: "os_getenv ?w ''ANYPOINT_CONTROL_PLANE'' ''us'' = ''mars''"
    by (simp add: os_getenv_def example_world_def example_environ_def)
  have h: "lower (os_getenv ?w ''ANYPOINT_CONTROL_PLANE'' ''us'') \<notin> set valid_control_planes"
    unfolding g lower_mars by (simp add: valid_control_planes_def)
  have m: "filter (missing ?w) required_vars = []"
    by (simp add: missing_def required_vars_def example_world_def example_environ_def)
  show ?thesis
    using h invalid_selector_fails_before_any_request [OF h] unfolding m by simp
qed

lemma dirs_kept:
  "p \<in> dirs d \<Longrightarrow> \<forall>e\<in>set evs. \<not> is_remove e \<Longrightarrow> p \<in> dirs (disk_after d evs)"
proof (induction evs arbitrary: d)
  case Nil
  then show ?case by (simp add: disk_after_def)
next
  case (Cons e evs)
  have "p \<in> dirs (fs_step d e)" using Cons.prems by (cases e) simp_all
  then have "p \<in> dirs (disk_after (fs_step d e) evs)" using Cons by simp
  then show ?case by (simp add: disk_after_def)
qed

lemma init_offline: "init offline_world = (Inr started_downloader, startup_trace)"
proof -
  have e: "environ offline_world = example_environ ''us''"
    and h: "http offline_world = offline_http"
    and c: "clock offline_world tr = example_time"
    and dh: "default_headers offline_world = [(''Accept'', ''*/*'')]" for tr
    by (simp_all add: offline_world_def example_world_def)
  have l: "load_config offline_world blank =
     Inr \<lparr>enable_endpoint_logging = False, control_plane = ''us'',
          config = \<lparr>client_id = ''id'', client_secret = ''secret'', organization_id = ''org'',
                    environment_id = ''env''\<rparr>,
          auth_url = [], base_url = [], session_headers = [], download_dir = []\<rparr>"
    by (simp add: load_config_def e example_environ_def missing_def required_vars_def
      os_getenv_def lower_false lower_us valid_control_planes_def blank_def)
  show ?thesis
    by (simp add: init_def l setup_base_urls_def control_plane_domains_def
      setup_session_def setup_download_dir_def log_endpoint_def Let_def
      h c dh offline_http_def reply_json_def raises_for_status_def fmt_def
      strftime_example started_downloader_def startup_trace_def)
qed

text \<open>
  A run whose list request fails: the run directory is made at start-up, before the
  pipeline begins, and nothing is ever written into it.
\<close>

theorem run_directory_exists_though_never_needed:
  "main offline_world =
     [HttpPost ''https://anypoint.mulesoft.com/accounts/api/v2/oauth2/token''
        [(''grant_type'', ''client_credentials''), (''client_id'', ''id''),
         (''client_secret'', ''secret'')],
      MakeDirs ''downloads_20240309_140507'',
      Print Starting,
      HttpGet ListEP ''https://anypoint.mulesoft.com/cloudhub/api/applications''
        (session_headers started_downloader) False,
      Print (Error_during_process (WrappedException Retrieving_applications)),
      Print Completed]"
proof -
  have h: "http offline_world = offline_http" by (simp add: offline_world_def)
  have g: "get_applications offline_world started_downloader (startup_trace @ [Print Starting])
     = (Inl (WrappedException Retrieving_applications), startup_trace @ [Print Starting,
          HttpGet ListEP ''https://anypoint.mulesoft.com/cloudhub/api/applications''
            (session_headers started_downloader) False])"
    by (simp add: get_applications_def session_get_def log_endpoint_def Let_def
        h offline_http_def reply_status_def raises_for_status_def started_downloader_def)
  have p: "process_all_applications offline_world started_downloader startup_trace
     = startup_trace @ [Print Starting,
          HttpGet ListEP ''https://anypoint.mulesoft.com/cloudhub/api/applications''
            (session_headers started_downloader) False,
          Print (Error_during_process (WrappedException Retrieving_applications))]"
    by (simp add: process_all_applications_def g)
  show ?thesis
    by (simp add: main_def init_offline p) (simp add: startup_trace_def)
qed

text \<open>
  C8, as amended. The run directory is made eagerly: the last effect of every successful
  initialization is the creation of the run directory, before any GET; the run goes on
  from there, removes nothing, and the directory is on disk when the run ends.
\<close>

theorem run_directory_made_at_startup:
  assumes "init w = (Inr d, tr0)"
  shows "tr0 \<noteq> [] \<and> last tr0 = MakeDirs (download_dir d) \<and> filter is_get tr0 = []
       \<and> main w = process_all_applications w d tr0 @ [Print Completed]
       \<and> take (length tr0) (main w) = tr0
       \<and> filter is_remove (main w) = []
       \<and> download_dir d \<in> dirs (disk_after d0 (main w))"
proof -
  obtain evs where t0: "tr0 = evs @ [HttpPost (auth_url d)
                   [(''grant_type'', ''client_credentials''),
                    (''client_id'', os_getenv w ''ANYPOINT_CLIENT_ID'' []),
                    (''client_secret'', os_getenv w ''ANYPOINT_CLIENT_SECRET'' [])],
                  MakeDirs (download_dir d)]"
    and q0: "\<forall>e\<in>set evs. \<not> is_http e \<and> \<not> is_remove e"
    using init_result [OF assms] by blast
  have nog: "\<not> is_http e \<Longrightarrow> \<not> is_get e" for e by (cases e) simp_all
  have a: "tr0 \<noteq> []" and b: "last tr0 = MakeDirs (download_dir d)" using t0 by simp_all
  have c: "filter is_get tr0 = []" using t0 q0 nog by (simp add: filter_empty_conv)
  have r0: "filter is_remove tr0 = []" using t0 q0 by (simp add: filter_empty_conv)
  have m: "main w = process_all_applications w d tr0 @ [Print Completed]"
    using assms by (simp add: main_def)
  obtain evs1 where run: "process_all_applications w d tr0 = tr0 @ evs1"
    and q1: "\<forall>e\<in>set evs1. \<not> is_remove e \<and> (is_get e \<longrightarrow> headers_of e = session_headers d)"
    using process_all_applications_prefix [of w d tr0] by blast
  have m': "main w = tr0 @ (evs1 @ [Print Completed])" using m run by simp
  have e: "take (length tr0) (main w) = tr0" using m' by simp
  have f: "filter is_remove (main w) = []"
    using m' r0 q1 by (simp add: filter_empty_conv)
  have all: "\<forall>e\<in>set (main w). \<not> is_remove e"
    using f by (simp add: filter_empty_conv)
  let ?d1 = "disk_after d0 (evs @ [HttpPost (auth_url d)
                   [(''grant_type'', ''client_credentials''),
                    (''client_id'', os_getenv w ''ANYPOINT_CLIENT_ID'' []),
                    (''client_secret'', os_getenv w ''ANYPOINT_CLIENT_SECRET'' [])]])"
  have "download_dir d \<in> dirs (disk_after ?d1 [MakeDirs (download_dir d)])"
    by (simp add: disk_after_def)
  then have in0: "download_dir d \<in> dirs (disk_after d0 tr0)"
    by (simp add: t0 disk_after_def)
  have "\<forall>e\<in>set (evs1 @ [Print Completed]). \<not> is_remove e" using q1 by simp
  then have "download_dir d \<in> dirs (disk_after (disk_after d0 tr0) (evs1 @ [Print Completed]))"
    using dirs_kept [OF in0] by blast
  then have g: "download_dir d \<in> dirs (disk_after d0 (main w))"
    by (simp only: m' disk_after_append)
  show ?thesis using a b c m e f g by blast
qed

theorem run_directory_made_at_startup_witness:
  "init offline_world = (Inr started_downloader, startup_trace)
   \<and> last startup_trace = MakeDirs ''downloads_20240309_140507''
   \<and> filter is_get startup_trace = []
   \<and> take (length startup_trace) (main offline_world) = startup_trace
   \<and> filter is_remove (main offline_world) = []
   \<and> ''downloads_20240309_140507'' \<in> dirs (disk_after empty_disk (main offline_world))"
proof -
  have d: "download_dir started_downloader = ''downloads_20240309_140507''"
    by (simp add: started_downloader_def)
  show ?thesis
    using init_offline run_directory_made_at_startup [OF init_offline, of empty_disk]
    unfolding d by blast
qed



end
